theory Spec2Isabelle
  imports Main
begin

section \<open>Data model of the factory library\<close>

text \<open>
  The library is configured with \<^verbatim>\<open>FACTORY_USE_QT\<close>: \<^verbatim>\<open>StringType\<close> is
  \<^verbatim>\<open>QString\<close>, \<^verbatim>\<open>DictType\<close> is \<^verbatim>\<open>QHash\<close>, \<^verbatim>\<open>warningOutput\<close> is \<^verbatim>\<open>qWarning ()\<close> and
  \<^verbatim>\<open>factoryAssert\<close> is \<^verbatim>\<open>Q_ASSERT\<close>. Variadic templates are switched off.

  A class (an interface or a production) is known by its name, which is also what
  \<^verbatim>\<open>typeid (T).name ()\<close> streams into a warning.
\<close>

type_synonym StringType = string

type_synonym class_name = string

text \<open>
  A static member function \<^verbatim>\<open>std::shared_ptr< I > createObject ()\<close> is identified by its
  address. Its C++ type, pointer to a function without arguments that returns
  \<^verbatim>\<open>std::shared_ptr< I >\<close>, is static; the model keeps the interface \<open>I\<close> of that type as a
  tag beside the address. A value of the table's element
  type \<^verbatim>\<open>decltype (&Interface::createObject)\<close> is either the null pointer (what a
  value-initialised element holds) or the address of such a function.
\<close>

datatype func = Func (result_interface: class_name) (address: nat)

datatype fnptr = NullFn | FnPtr func

text \<open>
  Objects live in a store: the object at address \<open>a\<close> is the \<open>a\<close>-th one allocated, and the
  store records its dynamic class. A \<^verbatim>\<open>std::shared_ptr\<close> is \<open>None\<close> when it holds
  \<^verbatim>\<open>nullptr\<close> and \<open>Some a\<close> when it owns the object at \<open>a\<close>.
\<close>

type_synonym heap = "class_name list"

type_synonym shared_ptr = "nat option"

text \<open>
  The bodies of the \<^verbatim>\<open>createObject\<close> functions are user code. They take no argument and
  return a \<^verbatim>\<open>shared_ptr\<close>; the model lets them read and extend the object store.
\<close>

type_synonym code = "func \<Rightarrow> heap \<Rightarrow> shared_ptr \<times> heap"

text \<open>
  \<^verbatim>\<open>FACTORY_PRODUCTION_CREATE_OBJECT (INTERFACE, PRODUCTION)\<close> expands to a body that
  returns \<^verbatim>\<open>std::shared_ptr< INTERFACE > (new PRODUCTION)\<close>.
\<close>

definition FACTORY_PRODUCTION_CREATE_OBJECT :: "class_name \<Rightarrow> heap \<Rightarrow> shared_ptr \<times> heap" where
  "FACTORY_PRODUCTION_CREATE_OBJECT PRODUCTION h = (Some (length h), h @ [PRODUCTION])"

text \<open>
  What \<^verbatim>\<open>AddProduction\<close> uses of its template argument \<^verbatim>\<open>Production\<close>: the name of the
  class, \<^verbatim>\<open>Production::typeId ()\<close> and the function \<^verbatim>\<open>Production::createObject\<close>.
\<close>

record Production =
  typeid_name :: class_name
  typeId :: StringType
  createObject :: func

text \<open>
  The dictionary \<^verbatim>\<open>DictType< StringType, decltype (&Interface::createObject) >\<close>, with the
  two member functions the library calls. \<^verbatim>\<open>count\<close> does not modify the dictionary.
  \<^verbatim>\<open>operator[]\<close> returns a reference to the element under the key and, when the key is
  absent, first inserts a value-initialised element (the null function pointer) there.
\<close>

type_synonym DictType = "StringType \<rightharpoonup> fnptr"

definition dict_count :: "DictType \<Rightarrow> StringType \<Rightarrow> nat" where
  "dict_count d k = (case d k of None \<Rightarrow> 0 | Some v \<Rightarrow> 1)"

definition subscript :: "DictType \<Rightarrow> StringType \<Rightarrow> fnptr \<times> DictType" where
  "subscript d k = (case d k of Some v \<Rightarrow> (v, d) | None \<Rightarrow> (NullFn, d(k \<mapsto> NullFn)))"

text \<open>
  The state of the process: for each interface the function-local static
  \<^verbatim>\<open>_produce_functions\<close> of \<^verbatim>\<open>Factory< Interface >::produceFunctions ()\<close>, the messages
  written to \<^verbatim>\<open>warningOutput\<close> (one list of streamed items for each statement), and the
  object store.
\<close>

record world =
  produceFunctions :: "class_name \<Rightarrow> DictType"
  warningOutput :: "string list list"
  heap :: heap

definition initial_world :: world where
  "initial_world = \<lparr>produceFunctions = (\<lambda>Interface. Map.empty), warningOutput = [], heap = []\<rparr>"

datatype error = AssertionFailure | NullFunctionCall

section \<open>Factory< Interface >::createObject\<close>

text \<open>Calling through a function pointer; calling the null pointer does not return.\<close>

fun call :: "code \<Rightarrow> fnptr \<Rightarrow> heap \<Rightarrow> error + (shared_ptr \<times> heap)" where
  "call bodies NullFn h = Inl NullFunctionCall"
| "call bodies (FnPtr f) h = Inr (bodies f h)"

text \<open>
  \<^verbatim>\<open>
  std::shared_ptr< Interface > object (nullptr);
  if (produceFunctions ().count (i_type_id)) {
      object = produceFunctions () [i_type_id]();
  }
  return object;
  \<close>
\<close>

definition Factory_createObject ::
    "code \<Rightarrow> class_name \<Rightarrow> StringType \<Rightarrow> world \<Rightarrow> error + (shared_ptr \<times> world)" where
  "Factory_createObject bodies Interface i_type_id w =
     (if dict_count (produceFunctions w Interface) i_type_id \<noteq> 0 then
        (let (f, d) = subscript (produceFunctions w Interface) i_type_id;
             w1 = w\<lparr>produceFunctions := (produceFunctions w)(Interface := d)\<rparr>
         in case call bodies f (heap w1) of
              Inl e \<Rightarrow> Inl e
            | Inr (object, h) \<Rightarrow> Inr (object, w1\<lparr>heap := h\<rparr>))
      else Inr (None, w))"

section \<open>AbstractFactory::createObject\<close>

text \<open>\<^verbatim>\<open>return Factory< Interface >::createObject (i_type_id);\<close>\<close>

definition AbstractFactory_createObject ::
    "code \<Rightarrow> class_name \<Rightarrow> StringType \<Rightarrow> world \<Rightarrow> error + (shared_ptr \<times> world)" where
  "AbstractFactory_createObject bodies Interface i_type_id w =
     Factory_createObject bodies Interface i_type_id w"

section \<open>AddProduction< Interfase, Production >::AddProduction\<close>

definition emit :: "string list \<Rightarrow> world \<Rightarrow> world" where
  "emit items w = w\<lparr>warningOutput := warningOutput w @ [items]\<rparr>"

definition second_registration :: "class_name \<Rightarrow> Production \<Rightarrow> string list" where
  "second_registration Interfase P =
     [''Second registration of class with id '', typeId P, ''in factory '', Interfase,
      ''while geristering class '', typeid_name P]"

definition repeated_same_class :: "string list" where
  "repeated_same_class = [''Repeated registration of the same class'']"

definition another_class_duplicate_id :: "string list" where
  "another_class_duplicate_id = [''Registration of another class with dublicate id'']"

text \<open>
  The body of the \<^verbatim>\<open>if\<close> of the constructor: the warning, then the comparison
  \<^verbatim>\<open>produceFunctions () [Production::typeId()] == Production::createObject\<close> and one of the
  two further messages.
\<close>

definition report_duplicate :: "class_name \<Rightarrow> Production \<Rightarrow> world \<Rightarrow> world" where
  "report_duplicate Interfase P w =
     (let w1 = emit (second_registration Interfase P) w;
          (f, d) = subscript (produceFunctions w1 Interfase) (typeId P);
          w2 = w1\<lparr>produceFunctions := (produceFunctions w1)(Interfase := d)\<rparr>
      in if f = FnPtr (createObject P) then emit repeated_same_class w2
         else emit another_class_duplicate_id w2)"

text \<open>
  The last statement of the constructor:
  \<^verbatim>\<open>produceFunctions () [Production::typeId()] = Production::createObject;\<close>
\<close>

definition store_production :: "class_name \<Rightarrow> Production \<Rightarrow> world \<Rightarrow> world" where
  "store_production Interfase P w =
     (let (f, d) = subscript (produceFunctions w Interfase) (typeId P)
      in w\<lparr>produceFunctions :=
            (produceFunctions w)(Interfase := d(typeId P \<mapsto> FnPtr (createObject P)))\<rparr>)"

text \<open>
  The constructor. Its first statement is
  \<^verbatim>\<open>factoryAssert (Factory< Interfase >::produceFunctions ().count (Production::typeId ()));\<close>
  which \<^verbatim>\<open>Q_ASSERT\<close> checks in a debug build and drops in a release build: \<open>assertions\<close>
  tells which build it is. A failed assertion aborts the process.
\<close>

definition AddProduction :: "bool \<Rightarrow> class_name \<Rightarrow> Production \<Rightarrow> world \<Rightarrow> error + world" where
  "AddProduction assertions Interfase P w =
     (if assertions \<and> \<not> (dict_count (produceFunctions w Interfase) (typeId P) \<noteq> 0)
      then Inl AssertionFailure
      else Inr (store_production Interfase P
             (if dict_count (produceFunctions w Interfase) (typeId P) \<noteq> 0
              then report_duplicate Interfase P w else w)))"




section \<open>Reachable states and the invariants of the tables\<close>

text \<open>
  The states a process reaches from its start by constructing \<^verbatim>\<open>AddProduction\<close> objects
  and calling \<^verbatim>\<open>createObject\<close>, with the list of the constructions completed so far (the
  latest first). No condition is put on what is registered.
\<close>

inductive reaches :: "code \<Rightarrow> (class_name \<times> Production) list \<Rightarrow> world \<Rightarrow> bool"
  for bodies :: code where
  start: "reaches bodies [] initial_world"
| registration:
    "reaches bodies registrations w \<Longrightarrow>
     AddProduction assertions Interfase P w = Inr w' \<Longrightarrow>
     reaches bodies ((Interfase, P) # registrations) w'"
| creation:
    "reaches bodies registrations w \<Longrightarrow>
     Factory_createObject bodies Interface i_type_id w = Inr (object, w') \<Longrightarrow>
     reaches bodies registrations w'"

definition reachable :: "code \<Rightarrow> world \<Rightarrow> bool" where
  "reachable bodies w = (\<exists>registrations. reaches bodies registrations w)"

text \<open>
  Every entry of the table of \<^verbatim>\<open>Factory< Interface >\<close> is the \<^verbatim>\<open>createObject\<close> of a
  production registered for that interface, under that production's identifier.
\<close>

definition registered_only :: "(class_name \<times> Production) list \<Rightarrow> world \<Rightarrow> bool" where
  "registered_only registrations w =
     (\<forall>Interface i f. produceFunctions w Interface i = Some f \<longrightarrow>
        (\<exists>P. (Interface, P) \<in> set registrations \<and> typeId P = i \<and> f = FnPtr (createObject P)))"



section \<open>A small program used to run the model\<close>

definition Circle :: Production where
  "Circle = \<lparr>typeid_name = ''Circle'', typeId = ''circle'', createObject = Func ''Shape'' 1\<rparr>"

definition Square :: Production where
  "Square = \<lparr>typeid_name = ''Square'', typeId = ''square'', createObject = Func ''Shape'' 2\<rparr>"

definition Disc :: Production where
  "Disc = \<lparr>typeid_name = ''Disc'', typeId = ''circle'', createObject = Func ''Shape'' 3\<rparr>"

definition shapes :: code where
  "shapes f = FACTORY_PRODUCTION_CREATE_OBJECT
     (if address f = 1 then ''Circle'' else if address f = 2 then ''Square'' else ''Disc'')"

definition one_shape :: world where
  "one_shape = store_production ''Shape'' Circle initial_world"

definition two_shapes :: world where
  "two_shapes = store_production ''Shape'' Square (store_production ''Shape'' Circle initial_world)"



section \<open>The dictionary operations and the two functions, case by case\<close>

lemma dict_count_nonzero:
  "(dict_count d k = 0) = (d k = None)"
  "(0 < dict_count d k) = (d k \<noteq> None)"
  by (simp_all add: dict_count_def split: option.split)

lemma subscript_present: "d k = Some v \<Longrightarrow> subscript d k = (v, d)"
  by (simp add: subscript_def)

lemma subscript_absent: "d k = None \<Longrightarrow> subscript d k = (NullFn, d(k \<mapsto> NullFn))"
  by (simp add: subscript_def)

lemma createObject_present:
  "produceFunctions w I i = Some g \<Longrightarrow>
   Factory_createObject bodies I i w =
     (case call bodies g (heap w) of Inl e \<Rightarrow> Inl e
      | Inr (object, h) \<Rightarrow> Inr (object, w\<lparr>heap := h\<rparr>))"
  by (simp add: Factory_createObject_def dict_count_nonzero subscript_present
        split: sum.split prod.split)

lemma createObject_absent:
  "produceFunctions w I i = None \<Longrightarrow> Factory_createObject bodies I i w = Inr (None, w)"
  by (simp add: Factory_createObject_def dict_count_nonzero)

lemma createObject_function:
  "produceFunctions w I i = Some (FnPtr f) \<Longrightarrow>
   Factory_createObject bodies I i w =
     Inr (fst (bodies f (heap w)), w\<lparr>heap := snd (bodies f (heap w))\<rparr>)"
  by (simp add: createObject_present split: prod.split)

lemma report_duplicate_present:
  "produceFunctions w I (typeId P) = Some g \<Longrightarrow>
   report_duplicate I P w =
     w\<lparr>warningOutput := warningOutput w @
          [second_registration I P,
           if g = FnPtr (createObject P) then repeated_same_class
           else another_class_duplicate_id]\<rparr>"
  by (simp add: report_duplicate_def emit_def subscript_present)

lemma store_production_tables:
  "produceFunctions (store_production I P w) =
     (produceFunctions w)(I := (produceFunctions w I)(typeId P \<mapsto> FnPtr (createObject P)))"
  by (simp add: store_production_def subscript_def split: option.split)

lemma store_production_rest:
  "warningOutput (store_production I P w) = warningOutput w"
  "heap (store_production I P w) = heap w"
  by (simp_all add: store_production_def split: prod.split)

lemma AddProduction_present:
  "produceFunctions w I (typeId P) = Some g \<Longrightarrow>
   AddProduction assertions I P w = Inr (store_production I P (report_duplicate I P w))"
  by (simp add: AddProduction_def dict_count_nonzero)

lemma AddProduction_absent:
  "produceFunctions w I (typeId P) = None \<Longrightarrow>
   AddProduction assertions I P w =
     (if assertions then Inl AssertionFailure else Inr (store_production I P w))"
  by (simp add: AddProduction_def dict_count_nonzero)

lemma AddProduction_tables:
  assumes "AddProduction assertions I P w = Inr w'"
  shows "produceFunctions w' =
     (produceFunctions w)(I := (produceFunctions w I)(typeId P \<mapsto> FnPtr (createObject P)))"
proof (cases "produceFunctions w I (typeId P)")
  case None
  with assms show ?thesis
    by (auto simp: AddProduction_absent store_production_tables split: if_splits)
next
  case (Some g)
  with assms show ?thesis
    by (auto simp: AddProduction_present store_production_tables report_duplicate_present)
qed

lemma AddProduction_heap:
  assumes "AddProduction assertions I P w = Inr w'"
  shows "heap w' = heap w"
proof (cases "produceFunctions w I (typeId P)")
  case None
  with assms show ?thesis
    by (auto simp: AddProduction_absent store_production_rest split: if_splits)
next
  case (Some g)
  with assms show ?thesis
    by (auto simp: AddProduction_present store_production_rest report_duplicate_present)
qed

lemma AddProduction_release: "\<exists>w'. AddProduction False I P w = Inr w'"
  by (simp add: AddProduction_def)

lemma createObject_tables:
  assumes "Factory_createObject bodies I i w = Inr (object, w')"
  shows "produceFunctions w' = produceFunctions w"
proof (cases "produceFunctions w I i")
  case None
  with assms show ?thesis by (simp add: createObject_absent)
next
  case (Some g)
  with assms show ?thesis
    by (auto simp: createObject_present split: sum.splits prod.splits)
qed

lemma createObject_returns:
  assumes "produceFunctions w I i \<noteq> Some NullFn"
  shows "\<exists>object w'. Factory_createObject bodies I i w = Inr (object, w')"
proof (cases "produceFunctions w I i")
  case None
  then show ?thesis by (simp add: createObject_absent)
next
  case (Some g)
  with assms obtain f where "g = FnPtr f" by (cases g) auto
  with Some show ?thesis by (simp add: createObject_function)
qed

lemma AddProduction_registered:
  assumes "registered_only registrations w" "AddProduction assertions I P w = Inr w'"
  shows "registered_only ((I, P) # registrations) w'"
  unfolding registered_only_def
proof (intro allI impI)
  fix J i f
  assume entry: "produceFunctions w' J i = Some f"
  show "\<exists>Q. (J, Q) \<in> set ((I, P) # registrations) \<and> typeId Q = i \<and> f = FnPtr (createObject Q)"
  proof (cases "J = I \<and> i = typeId P")
    case True
    with entry have "f = FnPtr (createObject P)"
      by (simp add: AddProduction_tables [OF assms(2)])
    with True show ?thesis by auto
  next
    case False
    with entry have "produceFunctions w J i = Some f"
      by (auto simp: AddProduction_tables [OF assms(2)] split: if_splits)
    with assms(1) obtain Q where "(J, Q) \<in> set registrations" "typeId Q = i" "f = FnPtr (createObject Q)"
      unfolding registered_only_def by blast
    then show ?thesis by auto
  qed
qed

lemma reaches_registered: "reaches bodies registrations w \<Longrightarrow> registered_only registrations w"
proof (induction rule: reaches.induct)
  case start
  show ?case by (simp add: registered_only_def initial_world_def)
next
  case (registration registrations w assertions Interfase P w')
  then show ?case by (blast intro: AddProduction_registered)
next
  case (creation registrations w Interface i_type_id object w')
  then show ?case by (simp add: registered_only_def createObject_tables)
qed

lemma registered_no_null:
  "registered_only registrations w \<Longrightarrow> produceFunctions w I i \<noteq> Some NullFn"
  by (auto simp: registered_only_def)



lemma reachable_start: "reachable bodies initial_world"
  unfolding reachable_def by (blast intro: reaches.start)

lemma one_shape_fields:
  "produceFunctions one_shape ''Shape'' ''circle'' = Some (FnPtr (Func ''Shape'' 1))"
  "heap one_shape = []"
  "warningOutput one_shape = []"
  by (simp_all add: one_shape_def store_production_tables store_production_rest
        initial_world_def Circle_def)

lemma two_shapes_tables:
  "produceFunctions two_shapes ''Shape'' ''circle'' = Some (FnPtr (Func ''Shape'' 1))"
  "produceFunctions two_shapes ''Shape'' ''square'' = Some (FnPtr (Func ''Shape'' 2))"
  "produceFunctions two_shapes ''Shape'' ''triangle'' = None"
  "heap two_shapes = []"
  "warningOutput two_shapes = []"
  by (simp_all add: two_shapes_def store_production_tables store_production_rest
        initial_world_def Circle_def Square_def)

section \<open>The claims\<close>

text \<open>
  Claim C1. When the table of \<^verbatim>\<open>Factory< Interface >\<close> maps the identifier to a constructor
  function, \<^verbatim>\<open>createObject\<close> calls exactly that function and returns what it returns; the
  only change to the state is the one the function makes to the object store. When the
  function's body is the one \<^verbatim>\<open>FACTORY_PRODUCTION_CREATE_OBJECT\<close> generates for a class,
  the result owns an object of that class at an address that was not allocated before.
\<close>
theorem Factory_createObject_registered:
  assumes "produceFunctions w Interface i_type_id = Some (FnPtr f)"
  shows "Factory_createObject bodies Interface i_type_id w =
           Inr (fst (bodies f (heap w)), w\<lparr>heap := snd (bodies f (heap w))\<rparr>) \<and>
         (bodies f = FACTORY_PRODUCTION_CREATE_OBJECT PRODUCTION \<longrightarrow>
            Factory_createObject bodies Interface i_type_id w =
              Inr (Some (length (heap w)), w\<lparr>heap := heap w @ [PRODUCTION]\<rparr>))"
  using assms by (simp add: createObject_function FACTORY_PRODUCTION_CREATE_OBJECT_def)

theorem Factory_createObject_registered_witness:
  "produceFunctions two_shapes ''Shape'' ''circle'' = Some (FnPtr (Func ''Shape'' 1)) \<and>
   shapes (Func ''Shape'' 1) = FACTORY_PRODUCTION_CREATE_OBJECT ''Circle'' \<and>
   Factory_createObject shapes ''Shape'' ''circle'' two_shapes =
     Inr (Some 0, two_shapes\<lparr>heap := [''Circle'']\<rparr>)"
proof -
  have h: "produceFunctions two_shapes ''Shape'' ''circle'' = Some (FnPtr (Func ''Shape'' 1))"
    by (rule two_shapes_tables)
  have b: "shapes (Func ''Shape'' 1) = FACTORY_PRODUCTION_CREATE_OBJECT ''Circle''"
    by (simp add: shapes_def)
  show ?thesis
    using Factory_createObject_registered [OF h, of shapes "''Circle''"] h b
    by (simp add: two_shapes_tables FACTORY_PRODUCTION_CREATE_OBJECT_def)
qed

text \<open>
  Claim C2. When the identifier is not in the table, \<^verbatim>\<open>createObject\<close> returns normally with
  the null \<^verbatim>\<open>shared_ptr\<close>; no object is created and the state is as before.
\<close>
theorem Factory_createObject_unregistered:
  assumes "produceFunctions w Interface i_type_id = None"
  shows "Factory_createObject bodies Interface i_type_id w = Inr (None, w)"
  using assms by (rule createObject_absent)

theorem Factory_createObject_unregistered_witness:
  "produceFunctions two_shapes ''Shape'' ''triangle'' = None \<and>
   Factory_createObject shapes ''Shape'' ''triangle'' two_shapes = Inr (None, two_shapes)"
proof -
  have h: "produceFunctions two_shapes ''Shape'' ''triangle'' = None"
    by (rule two_shapes_tables)
  show ?thesis using Factory_createObject_unregistered [OF h, of shapes] h by simp
qed

text \<open>
  Claim C3. With assertions compiled out, constructing \<^verbatim>\<open>AddProduction\<close> for an identifier
  that is already in the table completes, writes the second-registration warning followed
  by one further message, and leaves the identifier mapped to \<^verbatim>\<open>Production::createObject\<close>:
  a following \<^verbatim>\<open>createObject\<close> with that identifier calls the function registered last.
\<close>
theorem duplicate_registration_overwrites:
  assumes "produceFunctions w Interfase (typeId P) = Some g"
  shows "\<exists>w' verdict.
           AddProduction False Interfase P w = Inr w' \<and>
           warningOutput w' = warningOutput w @ [second_registration Interfase P, verdict] \<and>
           produceFunctions w' Interfase (typeId P) = Some (FnPtr (createObject P)) \<and>
           Factory_createObject bodies Interfase (typeId P) w' =
             Inr (fst (bodies (createObject P) (heap w')),
                  w'\<lparr>heap := snd (bodies (createObject P) (heap w'))\<rparr>)"
proof -
  let ?w' = "store_production Interfase P (report_duplicate Interfase P w)"
  have run: "AddProduction False Interfase P w = Inr ?w'"
    using assms by (rule AddProduction_present)
  have entry: "produceFunctions ?w' Interfase (typeId P) = Some (FnPtr (createObject P))"
    by (simp add: store_production_tables)
  have out: "warningOutput ?w' = warningOutput w @
      [second_registration Interfase P,
       if g = FnPtr (createObject P) then repeated_same_class else another_class_duplicate_id]"
    using assms by (simp add: store_production_rest report_duplicate_present)
  from run out entry createObject_function [OF entry] show ?thesis by blast
qed

theorem duplicate_registration_overwrites_witness:
  "produceFunctions one_shape ''Shape'' (typeId Disc) = Some (FnPtr (Func ''Shape'' 1)) \<and>
   (\<exists>w'. AddProduction False ''Shape'' Disc one_shape = Inr w' \<and>
      warningOutput w' \<noteq> [] \<and>
      Factory_createObject shapes ''Shape'' ''circle'' w' = Inr (Some 0, w'\<lparr>heap := [''Disc'']\<rparr>))"
proof -
  have h: "produceFunctions one_shape ''Shape'' (typeId Disc) = Some (FnPtr (Func ''Shape'' 1))"
    by (simp add: Disc_def one_shape_fields)
  from duplicate_registration_overwrites [OF h, of shapes]
  obtain w' verdict where
    run: "AddProduction False ''Shape'' Disc one_shape = Inr w'" and
    out: "warningOutput w' = warningOutput one_shape @ [second_registration ''Shape'' Disc, verdict]" and
    obj: "Factory_createObject shapes ''Shape'' (typeId Disc) w' =
             Inr (fst (shapes (createObject Disc) (heap w')),
                  w'\<lparr>heap := snd (shapes (createObject Disc) (heap w'))\<rparr>)"
    by blast
  have "heap w' = []" using AddProduction_heap [OF run] by (simp add: one_shape_fields)
  with obj have "Factory_createObject shapes ''Shape'' ''circle'' w' =
      Inr (Some 0, w'\<lparr>heap := [''Disc'']\<rparr>)"
    by (simp add: Disc_def shapes_def FACTORY_PRODUCTION_CREATE_OBJECT_def)
  with h run out show ?thesis by auto
qed

text \<open>
  Claim C8. On a duplicate registration the message after the warning is chosen by comparing
  the stored function pointer with \<^verbatim>\<open>Production::createObject\<close>: equal pointers give
  the message about a repeated registration of the same class, different ones the message
  about another class with a duplicate identifier.
\<close>
theorem duplicate_diagnostic_compares_functions:
  assumes "produceFunctions w Interfase (typeId P) = Some g"
  shows "\<exists>w'. AddProduction assertions Interfase P w = Inr w' \<and>
           warningOutput w' = warningOutput w @
             [second_registration Interfase P,
              if g = FnPtr (createObject P) then repeated_same_class
              else another_class_duplicate_id]"
  using assms
  by (simp add: AddProduction_present store_production_rest report_duplicate_present)

theorem duplicate_diagnostic_compares_functions_witness:
  "produceFunctions one_shape ''Shape'' (typeId Circle) = Some (FnPtr (createObject Circle)) \<and>
   produceFunctions one_shape ''Shape'' (typeId Disc) = Some (FnPtr (createObject Circle)) \<and>
   (\<exists>w'. AddProduction False ''Shape'' Circle one_shape = Inr w' \<and>
      warningOutput w' = [second_registration ''Shape'' Circle,
                          [''Repeated registration of the same class'']]) \<and>
   (\<exists>w'. AddProduction False ''Shape'' Disc one_shape = Inr w' \<and>
      warningOutput w' = [second_registration ''Shape'' Disc,
                          [''Registration of another class with dublicate id'']])"
proof -
  have same: "produceFunctions one_shape ''Shape'' (typeId Circle) = Some (FnPtr (createObject Circle))"
    by (simp add: Circle_def one_shape_fields)
  have other: "produceFunctions one_shape ''Shape'' (typeId Disc) = Some (FnPtr (createObject Circle))"
    by (simp add: Circle_def Disc_def one_shape_fields)
  have differ: "createObject Circle \<noteq> createObject Disc"
    by (simp add: Circle_def Disc_def)
  show ?thesis
    using duplicate_diagnostic_compares_functions [OF same, of False]
      duplicate_diagnostic_compares_functions [OF other, of False] same other differ
    by (simp add: one_shape_fields repeated_same_class_def another_class_duplicate_id_def)
qed

text \<open>
  Claim C10. A completed construction of \<^verbatim>\<open>AddProduction< Interfase, Production >\<close> leaves
  the entry under every identifier other than \<^verbatim>\<open>Production::typeId ()\<close> as it was.
\<close>
theorem AddProduction_other_identifiers_unchanged:
  assumes "AddProduction assertions Interfase P w = Inr w'" and "i \<noteq> typeId P"
  shows "produceFunctions w' Interfase i = produceFunctions w Interfase i"
  using assms(2) by (simp add: AddProduction_tables [OF assms(1)])

theorem AddProduction_other_identifiers_unchanged_witness:
  "AddProduction False ''Shape'' Square one_shape = Inr two_shapes \<and> ''circle'' \<noteq> typeId Square \<and>
   produceFunctions two_shapes ''Shape'' ''circle'' = Some (FnPtr (Func ''Shape'' 1))"
proof -
  have run: "AddProduction False ''Shape'' Square one_shape = Inr two_shapes"
    by (simp add: AddProduction_absent one_shape_def two_shapes_def store_production_tables
          initial_world_def Circle_def Square_def)
  have other: "''circle'' \<noteq> typeId Square" by (simp add: Square_def)
  show ?thesis
    using AddProduction_other_identifiers_unchanged [OF run other] run other
    by (simp add: one_shape_fields)
qed

text \<open>
  Claim C5. \<^verbatim>\<open>AbstractFactory::createObject< Interface >\<close> returns what
  \<^verbatim>\<open>Factory< Interface >::createObject\<close> returns, result and resulting state alike; the
  state has no component that belongs to the facade.
\<close>
theorem AbstractFactory_delegates:
  "AbstractFactory_createObject bodies Interface i_type_id w =
     Factory_createObject bodies Interface i_type_id w"
  by (simp add: AbstractFactory_createObject_def)




text \<open>
  Claim C7. After \<^verbatim>\<open>AddProduction< Interfase, P1 >\<close> and \<^verbatim>\<open>AddProduction< Interfase, P2 >\<close>
  have both been constructed, for productions with different identifiers, \<^verbatim>\<open>createObject\<close>
  with the identifier of \<open>P1\<close> returns the result of \<^verbatim>\<open>P1::createObject\<close> and with the
  identifier of \<open>P2\<close> the result of \<^verbatim>\<open>P2::createObject\<close>.
\<close>
theorem registrations_round_trip:
  assumes "typeId P1 \<noteq> typeId P2"
    and "AddProduction a1 Interfase P1 w = Inr w1"
    and "AddProduction a2 Interfase P2 w1 = Inr w2"
  shows "Factory_createObject bodies Interfase (typeId P1) w2 =
           Inr (fst (bodies (createObject P1) (heap w2)),
                w2\<lparr>heap := snd (bodies (createObject P1) (heap w2))\<rparr>) \<and>
         Factory_createObject bodies Interfase (typeId P2) w2 =
           Inr (fst (bodies (createObject P2) (heap w2)),
                w2\<lparr>heap := snd (bodies (createObject P2) (heap w2))\<rparr>)"
proof -
  have first: "produceFunctions w2 Interfase (typeId P1) = Some (FnPtr (createObject P1))"
    using assms(1) by (simp add: AddProduction_tables [OF assms(3)] AddProduction_tables [OF assms(2)])
  have second: "produceFunctions w2 Interfase (typeId P2) = Some (FnPtr (createObject P2))"
    by (simp add: AddProduction_tables [OF assms(3)])
  from createObject_function [OF first] createObject_function [OF second]
  show ?thesis by blast
qed

theorem registrations_round_trip_witness:
  "typeId Circle \<noteq> typeId Square \<and>
   AddProduction False ''Shape'' Circle initial_world = Inr one_shape \<and>
   AddProduction False ''Shape'' Square one_shape = Inr two_shapes \<and>
   Factory_createObject shapes ''Shape'' ''circle'' two_shapes =
     Inr (Some 0, two_shapes\<lparr>heap := [''Circle'']\<rparr>) \<and>
   Factory_createObject shapes ''Shape'' ''square'' two_shapes =
     Inr (Some 0, two_shapes\<lparr>heap := [''Square'']\<rparr>)"
proof -
  have differ: "typeId Circle \<noteq> typeId Square" by (simp add: Circle_def Square_def)
  have run1: "AddProduction False ''Shape'' Circle initial_world = Inr one_shape"
    by (simp add: AddProduction_absent one_shape_def initial_world_def)
  have run2: "AddProduction False ''Shape'' Square one_shape = Inr two_shapes"
    by (simp add: AddProduction_absent one_shape_def two_shapes_def store_production_tables
          initial_world_def Circle_def Square_def)
  show ?thesis
    using registrations_round_trip [OF differ run1 run2, of shapes] differ run1 run2
    by (simp add: two_shapes_tables Circle_def Square_def shapes_def
          FACTORY_PRODUCTION_CREATE_OBJECT_def)
qed

text \<open>
  Claim C9. \<^verbatim>\<open>createObject\<close> never changes a table: whenever it returns, all tables are as
  before the call, although it reads the entry with the inserting \<^verbatim>\<open>operator[]\<close>. It
  returns for every identifier whose entry is not the null function pointer, hence for
  every identifier in every reachable state.
\<close>
theorem Factory_createObject_keeps_tables:
  "(\<forall>object w'. Factory_createObject bodies Interface i_type_id w = Inr (object, w') \<longrightarrow>
      produceFunctions w' = produceFunctions w) \<and>
   (produceFunctions w Interface i_type_id \<noteq> Some NullFn \<longrightarrow>
      (\<exists>object w'. Factory_createObject bodies Interface i_type_id w = Inr (object, w'))) \<and>
   (reachable bodies w \<longrightarrow>
      (\<exists>object w'. Factory_createObject bodies Interface i_type_id w = Inr (object, w') \<and>
         produceFunctions w' = produceFunctions w))"
proof -
  have keep: "produceFunctions w' = produceFunctions w"
    if "Factory_createObject bodies Interface i_type_id w = Inr (object, w')" for object w'
    using that by (rule createObject_tables)
  have ret: "\<exists>object w'. Factory_createObject bodies Interface i_type_id w = Inr (object, w')"
    if "produceFunctions w Interface i_type_id \<noteq> Some NullFn"
    using that by (rule createObject_returns)
  have "produceFunctions w Interface i_type_id \<noteq> Some NullFn" if "reachable bodies w"
    using that unfolding reachable_def
    by (blast dest: reaches_registered registered_no_null)
  with keep ret show ?thesis by blast
qed

theorem Factory_createObject_keeps_tables_witness:
  "reachable shapes initial_world \<and>
   (\<exists>object w'. Factory_createObject shapes ''Shape'' ''circle'' initial_world = Inr (object, w') \<and>
      produceFunctions w' ''Shape'' ''circle'' = None) \<and>
   (\<exists>object w'. Factory_createObject shapes ''Shape'' ''circle'' two_shapes = Inr (object, w') \<and>
      produceFunctions w' = produceFunctions two_shapes)"
proof -
  have reach: "reachable shapes initial_world" by (rule reachable_start)
  have present: "produceFunctions two_shapes ''Shape'' ''circle'' \<noteq> Some NullFn"
    by (simp add: two_shapes_tables)
  have empty: "produceFunctions initial_world ''Shape'' ''circle'' = None"
    by (simp add: initial_world_def)
  show ?thesis
    using Factory_createObject_keeps_tables [of shapes "''Shape''" "''circle''" initial_world]
      Factory_createObject_keeps_tables [of shapes "''Shape''" "''circle''" two_shapes]
      reach present empty
    by metis
qed

text \<open>
  Claim C4. With assertions enabled, the assertion of the constructor of \<^verbatim>\<open>AddProduction\<close>
  fails on the first registration of an identifier and aborts the process, whereas a release
  build registers the same production; a duplicate registration passes the assertion.
\<close>
theorem assertion_fails_on_first_registration:
  "AddProduction True ''Shape'' Circle initial_world = Inl AssertionFailure \<and>
   AddProduction True ''Shape'' Disc one_shape =
     Inr (store_production ''Shape'' Disc (report_duplicate ''Shape'' Disc one_shape))"
proof -
  have first: "produceFunctions initial_world ''Shape'' (typeId Circle) = None"
    by (simp add: initial_world_def)
  have again: "produceFunctions one_shape ''Shape'' (typeId Disc) = Some (FnPtr (Func ''Shape'' 1))"
    by (simp add: Disc_def one_shape_fields)
  have "AddProduction True ''Shape'' Circle initial_world = Inl AssertionFailure"
    by (simp add: AddProduction_absent [OF first])
  with AddProduction_present [OF again, of True] show ?thesis by simp
qed

end
